theory Spec2Isabelle
  imports Complex_Main "HOL-Library.Sublist" "HOL-Library.Product_Lexorder"
begin

section \<open>Data model of uirapurudsp.py\<close>

text \<open>
  One row of the inventory table built by \<open>read_fits\<close>. The columns are those of the
  DataFrame: \<open>File\<close>, \<open>Size\<close> (mebibytes), \<open>NAXIS2\<close>, \<open>MINFREQ\<close> and \<open>MAXFREQ\<close> (MHz),
  \<open>NAXIS1\<close>, \<open>DELTA\<close> (seconds) and \<open>DATE_START\<close>. Python floats are idealised as
  reals; \<open>DATE_START\<close> is a \<open>datetime64[ns]\<close>, an integer count of nanoseconds.
\<close>

record file_record =
  File :: string
  Size :: real
  NAXIS2 :: int
  MINFREQ :: real
  MAXFREQ :: real
  NAXIS1 :: int
  DELTA :: real
  DATE_START :: int

text \<open>Python exceptions that the modelled functions can raise.\<close>

datatype py_error =
  IndexError | TypeError | UnboundLocalError | ValueError | KeyError | AttributeError | OSError

section \<open>chunk\_files\<close>

text \<open>
  \<open>chunk_files(obs, threshold)\<close> walks \<open>obs.index\<close> and reads \<open>obs.File.loc[idx]\<close> and
  \<open>obs.Size.loc[idx]\<close>. The table is modelled as the list of its rows in index order
  (index labels are unique, as \<open>reset_index\<close> makes them). The three loop variables
  \<open>chunks\<close>, \<open>file_chunk\<close> and \<open>size\<close> form the loop state.
\<close>

record chunk_state =
  chunks :: "string list list"
  file_chunk :: "string list"
  size_acc :: real

definition chunk_init :: chunk_state where
  "chunk_init = \<lparr>chunks = [], file_chunk = [], size_acc = 0\<rparr>"

text \<open>The body of the \<open>for idx in idxs\<close> loop.\<close>

definition chunk_step :: "real \<Rightarrow> chunk_state \<Rightarrow> file_record \<Rightarrow> chunk_state" where
  "chunk_step threshold s r =
     (if size_acc s < threshold
      then s\<lparr>file_chunk := file_chunk s @ [File r], size_acc := size_acc s + Size r\<rparr>
      else s\<lparr>chunks := chunks s @ [file_chunk s], file_chunk := [], size_acc := 0\<rparr>)"

fun chunk_loop :: "real \<Rightarrow> chunk_state \<Rightarrow> file_record list \<Rightarrow> chunk_state" where
  "chunk_loop threshold s [] = s"
| "chunk_loop threshold s (r # rs) = chunk_loop threshold (chunk_step threshold s r) rs"

definition chunk_files :: "file_record list \<Rightarrow> real \<Rightarrow> string list list" where
  "chunk_files obs threshold = chunks (chunk_loop threshold chunk_init obs)"

text \<open>A row with the given path and size; the other columns play no role in chunking.\<close>

definition mk_file :: "string \<Rightarrow> real \<Rightarrow> file_record" where
  "mk_file p sz = \<lparr>File = p, Size = sz, NAXIS2 = 0, MINFREQ = 0, MAXFREQ = 0, NAXIS1 = 0,
     DELTA = 0, DATE_START = 0\<rparr>"

section \<open>load\_fits\<close>

text \<open>
  After line 124 the Python list \<open>chunks\<close> can hold an integer next to lists of paths, so
  its elements are a tagged union.
\<close>

datatype chunk_item = Paths "string list" | IntItem int

text \<open>
  What \<open>load_fits\<close> reads from one opened file: the start timestamp built from
  \<open>DATE-OBS\<close> and \<open>TIME-OBS\<close> (nanoseconds), the time offsets \<open>hdul[1].data[0][0]\<close>
  (as nanoseconds), the frequency axis \<open>hdul[1].data[0][1]\<close> and the primary data array.
  The file system is a parameter \<open>fits_open\<close>; \<open>None\<close> is a file that cannot be opened.
\<close>

record fits_content =
  fc_start :: int
  fc_times :: "int list"
  fc_freqs :: "real list"
  fc_data :: "real list list"

text \<open>
  The local variables of \<open>load_fits\<close>. \<open>dda\<close>, \<open>time_index\<close> and \<open>freqs\<close> are assigned
  only inside the loops: \<open>None\<close> is a name that is still unbound.
\<close>

record loader_state =
  data :: "real list list list"
  timestamps :: "int list list"
  dda :: "real list list option"
  time_index :: "int list option"
  freqs :: "real list option"

record data_array =
  xda_values :: "real list list"
  xda_Time :: "int list"
  xda_Freq :: "real list"

definition loader_init :: loader_state where
  "loader_init = \<lparr>data = [], timestamps = [], dda = None, time_index = None, freqs = None\<rparr>"

text \<open>Python's \<open>xs[a:b]\<close> on a list: negative bounds count from the end, all are clamped.\<close>

definition py_slice :: "'a list \<Rightarrow> int \<Rightarrow> int \<Rightarrow> 'a list" where
  "py_slice xs a b =
     (let n = int (length xs);
          lo = (if a < 0 then max 0 (a + n) else min a n);
          hi = (if b < 0 then max 0 (b + n) else min b n)
      in take (nat (hi - lo)) (drop (nat lo) xs))"

text \<open>Python's \<open>xs[i] = v\<close> for a non-negative \<open>i\<close>: IndexError out of range.\<close>

definition list_store :: "'a list \<Rightarrow> nat \<Rightarrow> 'a \<Rightarrow> py_error + 'a list" where
  "list_store xs i v = (if i < length xs then Inr (xs[i := v]) else Inl IndexError)"

text \<open>The inner loop \<open>for file in chunk\<close> (lines 128 to 144).\<close>

fun load_chunk ::
  "(string \<Rightarrow> fits_content option) \<Rightarrow> loader_state \<Rightarrow> string list \<Rightarrow> py_error + loader_state"
where
  "load_chunk fits_open s [] = Inr s"
| "load_chunk fits_open s (file # files) =
     (case fits_open file of
        None \<Rightarrow> Inl OSError
      | Some h \<Rightarrow>
          load_chunk fits_open
            (s\<lparr>freqs := Some (fc_freqs h),
               timestamps := timestamps s @ [map (\<lambda>t. fc_start h + t) (fc_times h)],
               data := data s @ [fc_data h]\<rparr>) files)"

text \<open>
  The outer loop \<open>for chunk in chunks[...]\<close> (lines 127 to 146). Iterating over an integer
  element raises TypeError; \<open>da.concatenate\<close> of an empty list raises ValueError.
\<close>

fun load_chunks ::
  "(string \<Rightarrow> fits_content option) \<Rightarrow> loader_state \<Rightarrow> chunk_item list \<Rightarrow> py_error + loader_state"
where
  "load_chunks fits_open s [] = Inr s"
| "load_chunks fits_open s (IntItem n # cs) = Inl TypeError"
| "load_chunks fits_open s (Paths chunk # cs) =
     (case load_chunk fits_open s chunk of
        Inl e \<Rightarrow> Inl e
      | Inr s' \<Rightarrow>
          if data s' = [] then Inl ValueError
          else load_chunks fits_open
                 (s'\<lparr>dda := Some (concat (data s')),
                     time_index := Some (concat (timestamps s'))\<rparr>) cs)"

text \<open>
  Lines 123 and 124: \<open>if chunks_idx[1] > len(chunks): chunks[1] = len(chunks)\<close>. The store
  goes into \<open>chunks\<close>, not into \<open>chunks_idx\<close>. (The list is called \<open>chunk_list\<close>
  here, \<open>chunks\<close> being the field of the chunking loop's state.)
\<close>

definition clamp_end :: "chunk_item list \<Rightarrow> int \<times> int \<Rightarrow> py_error + chunk_item list" where
  "clamp_end chunk_list chunks_idx =
     (if snd chunks_idx > int (length chunk_list)
      then list_store chunk_list 1 (IntItem (int (length chunk_list)))
      else Inr chunk_list)"

text \<open>
  Lines 147 to 150: reading an unbound local raises UnboundLocalError. The call of
  \<open>xr.DataArray\<close> itself is taken to succeed and is modelled by the record of its arguments.
\<close>

definition make_xda :: "loader_state \<Rightarrow> py_error + data_array" where
  "make_xda s =
     (case dda s of
        None \<Rightarrow> Inl UnboundLocalError
      | Some d \<Rightarrow>
          (case time_index s of
             None \<Rightarrow> Inl UnboundLocalError
           | Some ti \<Rightarrow>
               (case freqs s of
                  None \<Rightarrow> Inl UnboundLocalError
                | Some f \<Rightarrow> Inr \<lparr>xda_values = d, xda_Time = ti, xda_Freq = f\<rparr>)))"

definition load_fits ::
  "(string \<Rightarrow> fits_content option) \<Rightarrow> file_record list \<Rightarrow> (int \<times> int) option \<Rightarrow> real
     \<Rightarrow> py_error + data_array"
where
  "load_fits fits_open obs chunks_idx threshold =
     (let idx = (case chunks_idx of None \<Rightarrow> (0, 10) | Some p \<Rightarrow> p);
          chunk_list = map Paths (chunk_files obs threshold)
      in case clamp_end chunk_list idx of
           Inl e \<Rightarrow> Inl e
         | Inr chunk_list' \<Rightarrow>
             (case load_chunks fits_open loader_init
                     (py_slice chunk_list' (fst idx) (snd idx)) of
                Inl e \<Rightarrow> Inl e
              | Inr s \<Rightarrow> make_xda s))"

text \<open>A reader under which every path opens, with one sample per file.\<close>

definition demo_open :: "string \<Rightarrow> fits_content option" where
  "demo_open p = Some \<lparr>fc_start = 0, fc_times = [0], fc_freqs = [45], fc_data = [[1]]\<rparr>"

definition six_files :: "file_record list" where
  "six_files = [mk_file ''f1'' 200, mk_file ''f2'' 200, mk_file ''f3'' 200,
                mk_file ''f4'' 200, mk_file ''f5'' 200, mk_file ''f6'' 200]"

section \<open>read\_fits\<close>

text \<open>
  The inventory table: its rows, and the column \<open>Grupo\<close> that \<open>read_obs\<close> writes.
  \<open>Grupo = None\<close> is a table without that column; inside the column \<open>None\<close> is NaN. Index
  labels are the row positions \<open>0, 1, ...\<close>, as \<open>reset_index(drop=True)\<close> leaves them.
\<close>

record data_frame =
  recs :: "file_record list"
  Grupo :: "nat option list option"

text \<open>
  One file of the raw directory as \<open>read_fits\<close> sees it: its path, its size in bytes,
  the six header cards it reads from \<open>hdul[0].header\<close> (\<open>None\<close> is a missing card, a
  KeyError) and the last time sample \<open>hdul[1].data["TIME"][0][-1]\<close>. \<open>rf_opens = False\<close> is
  a file that \<open>fits.open\<close> rejects.
\<close>

record raw_file =
  rf_path :: string
  rf_st_size :: nat
  rf_opens :: bool
  rf_DATE_OBS :: "string option"
  rf_TIME_OBS :: "string option"
  rf_NAXIS2 :: "int option"
  rf_MINFREQ :: "real option"
  rf_MAXFREQ :: "real option"
  rf_NAXIS1 :: "int option"
  rf_time_last :: real

text \<open>One row of the array \<open>headers\<close> filled by the loop of lines 14 to 30.\<close>

record header_row =
  hr_File :: string
  hr_Size :: real
  hr_DATE_OBS :: string
  hr_TIME_OBS :: string
  hr_NAXIS2 :: int
  hr_MINFREQ :: real
  hr_MAXFREQ :: real
  hr_NAXIS1 :: int
  hr_DELTA :: real

definition scan_file :: "raw_file \<Rightarrow> py_error + header_row" where
  "scan_file f =
     (if \<not> rf_opens f then Inl OSError
      else
        (case (rf_DATE_OBS f, rf_TIME_OBS f, rf_NAXIS2 f, rf_MINFREQ f, rf_MAXFREQ f, rf_NAXIS1 f) of
           (Some d, Some t, Some n2, Some lo, Some hi, Some n1) \<Rightarrow>
             Inr \<lparr>hr_File = rf_path f, hr_Size = real (rf_st_size f) / (1024 * 1024),
                  hr_DATE_OBS = d, hr_TIME_OBS = t, hr_NAXIS2 = n2, hr_MINFREQ = lo,
                  hr_MAXFREQ = hi, hr_NAXIS1 = n1, hr_DELTA = rf_time_last f\<rparr>
         | _ \<Rightarrow> Inl KeyError))"

fun scan_files :: "raw_file list \<Rightarrow> py_error + header_row list" where
  "scan_files [] = Inr []"
| "scan_files (f # fs) =
     (case scan_file f of
        Inl e \<Rightarrow> Inl e
      | Inr h \<Rightarrow> (case scan_files fs of Inl e \<Rightarrow> Inl e | Inr hs \<Rightarrow> Inr (h # hs)))"

text \<open>
  Lines 32 to 41: the timestamp is parsed from \<open>DATE-OBS + "T" + TIME-OBS\<close> by
  \<open>pd.to_datetime\<close>, a parameter here (\<open>None\<close> is a string it rejects, a ValueError); the
  frequencies are divided by \<open>1e6\<close>.
\<close>

fun to_records :: "(string \<Rightarrow> int option) \<Rightarrow> header_row list \<Rightarrow> py_error + file_record list"
where
  "to_records to_datetime [] = Inr []"
| "to_records to_datetime (h # hs) =
     (case to_datetime (hr_DATE_OBS h @ ''T'' @ hr_TIME_OBS h) of
        None \<Rightarrow> Inl ValueError
      | Some ts \<Rightarrow>
          (case to_records to_datetime hs of
             Inl e \<Rightarrow> Inl e
           | Inr rs \<Rightarrow>
               Inr (\<lparr>File = hr_File h, Size = hr_Size h, NAXIS2 = hr_NAXIS2 h,
                     MINFREQ = hr_MINFREQ h / 1000000, MAXFREQ = hr_MAXFREQ h / 1000000,
                     NAXIS1 = hr_NAXIS1 h, DELTA = hr_DELTA h, DATE_START = ts\<rparr> # rs)))"

text \<open>The key of \<open>sort_values(["MINFREQ", "NAXIS1", "DATE_START"])\<close>, compared lexicographically.\<close>

definition sort_columns :: "file_record \<Rightarrow> real \<times> int \<times> int" where
  "sort_columns r = (MINFREQ r, NAXIS1 r, DATE_START r)"

text \<open>
  \<open>read_fits()\<close> over the listing of the raw directory. With no file the loop never binds
  \<open>cols\<close>, and line 31 raises UnboundLocalError.
\<close>

definition read_fits :: "(string \<Rightarrow> int option) \<Rightarrow> raw_file list \<Rightarrow> py_error + data_frame" where
  "read_fits to_datetime files =
     (if files = [] then Inl UnboundLocalError
      else case scan_files files of
             Inl e \<Rightarrow> Inl e
           | Inr hs \<Rightarrow>
               (case to_records to_datetime hs of
                  Inl e \<Rightarrow> Inl e
                | Inr rs \<Rightarrow> Inr \<lparr>recs = sort_key sort_columns rs, Grupo = None\<rparr>))"

section \<open>read\_obs\<close>

text \<open>The key of \<open>groupby(["MINFREQ", "MAXFREQ", "NAXIS1"])\<close>.\<close>

definition bucket_key :: "file_record \<Rightarrow> real \<times> real \<times> int" where
  "bucket_key r = (MINFREQ r, MAXFREQ r, NAXIS1 r)"

text \<open>
  The groups of the \<open>groupby\<close>: keys in ascending order, and in each group the labelled rows
  in table order.
\<close>

definition groupby_bucket :: "file_record list \<Rightarrow> (nat \<times> file_record) list list" where
  "groupby_bucket rs =
     map (\<lambda>k. filter (\<lambda>ir. bucket_key (snd ir) = k) (enumerate 0 rs))
         (sort (remdups (map bucket_key rs)))"

definition total_seconds :: "int \<Rightarrow> real" where
  "total_seconds ns = real_of_int ns / 1000000000"

text \<open>
  The lambda of lines 56 to 59 on one group \<open>val\<close>:
  \<open>abs(val.iloc[:, 1].diff().dt.total_seconds()[1:] - val.iloc[1:, 0]) < 300\<close>. The
  difference at label \<open>j\<close> is \<open>DATE_START[j] - DATE_START[i]\<close> for the preceding label \<open>i\<close>;
  the subtraction aligns on the index, so at label \<open>j\<close> it subtracts \<open>DELTA[j]\<close>. The
  result is a boolean series over all labels of the group but the first.
\<close>

fun pair_marks :: "(nat \<times> file_record) list \<Rightarrow> (nat \<times> bool) list" where
  "pair_marks ((i, p) # (j, r) # rest) =
     (j, \<bar>total_seconds (DATE_START r - DATE_START p) - DELTA r\<bar> < 300)
       # pair_marks ((j, r) # rest)"
| "pair_marks [x] = []"
| "pair_marks [] = []"

text \<open>
  \<open>series = dfg.sum()\<close>. When the series returned for the groups all carry the same index
  (a single group, or groups of one row each), \<open>apply\<close> stacks them into a frame with one
  row per group and one column per label, and \<open>sum()\<close> adds each column up. Otherwise
  \<open>apply\<close> concatenates them into one series, \<open>sum()\<close> is a number, and \<open>series.shift()\<close> in
  line 62 raises AttributeError. For a table without rows the series is taken to be empty:
  whatever \<open>sum()\<close> returns then, it holds no value 1.
\<close>

definition column_sums :: "(nat \<times> bool) list list \<Rightarrow> (nat \<times> bool) list \<Rightarrow> (nat \<times> nat) list" where
  "column_sums vals v =
     map (\<lambda>j. (fst (v ! j), sum_list (map (\<lambda>w. if snd (w ! j) then 1 else 0) vals)))
         [0..<length v]"

definition series_of :: "file_record list \<Rightarrow> py_error + (nat \<times> nat) list" where
  "series_of rs =
     (case map pair_marks (groupby_bucket rs) of
        [] \<Rightarrow> Inr []
      | v # vs \<Rightarrow>
          if list_all (\<lambda>w. map fst w = map fst v) vs
          then Inr (column_sums (v # vs) v)
          else Inl AttributeError)"

text \<open>
  \<open>series.groupby((series != series.shift()).cumsum())\<close>: the maximal runs of equal
  consecutive values, in order.
\<close>

fun runs :: "(nat \<times> nat) list \<Rightarrow> (nat \<times> nat) list list" where
  "runs [] = []"
| "runs (x # xs) =
     (case runs xs of
        (y # g) # gs \<Rightarrow> if snd y = snd x then (x # y # g) # gs else [x] # (y # g) # gs
      | _ \<Rightarrow> [[x]])"

text \<open>The test \<open>group.iloc[0] == 1\<close> of line 63.\<close>

definition starts_with_one :: "(nat \<times> nat) list \<Rightarrow> bool" where
  "starts_with_one g = (case g of [] \<Rightarrow> False | x # _ \<Rightarrow> snd x = 1)"

text \<open>
  \<open>df.loc[idx, "Grupo"] = ii\<close>: the column is created, filled with NaN, when the table has
  none; then the cells at the labels \<open>idx\<close> are overwritten.
\<close>

definition loc_assign :: "data_frame \<Rightarrow> nat list \<Rightarrow> nat \<Rightarrow> data_frame" where
  "loc_assign df idx ii =
     (let col = (case Grupo df of None \<Rightarrow> replicate (length (recs df)) None | Some c \<Rightarrow> c)
      in df\<lparr>Grupo := Some (fold (\<lambda>i c. c[i := Some ii]) idx col)\<rparr>)"

fun assign_groups :: "data_frame \<Rightarrow> nat \<Rightarrow> (nat \<times> nat) list list \<Rightarrow> data_frame" where
  "assign_groups df ii [] = df"
| "assign_groups df ii (grp # grps) =
     assign_groups (loc_assign df (map fst grp) ii) (Suc ii) grps"

text \<open>Rounding to the nearest integer, ties to even, as numpy and pandas round.\<close>

definition round_half_even :: "real \<Rightarrow> int" where
  "round_half_even x =
     (let f = \<lfloor>x\<rfloor>; d = x - of_int f
      in if d < 1 / 2 then f else if 1 / 2 < d then f + 1 else if even f then f else f + 1)"

text \<open>
  One row of \<open>df_sum\<close>: the group number, the first \<open>DATE_START\<close>, the summed \<open>DELTA\<close> as a
  duration rounded to the second, the summed \<open>Size\<close> divided by 1024 and rounded to two
  decimals, and the first \<open>MINFREQ\<close>, \<open>MAXFREQ\<close> and \<open>NAXIS1\<close>.
\<close>

record obs_summary =
  sum_Grupo :: nat
  sum_DATE_START :: int
  sum_DELTA :: int
  sum_Size :: real
  sum_MINFREQ :: real
  sum_MAXFREQ :: real
  sum_NAXIS1 :: int

definition summary_row :: "nat \<Rightarrow> file_record list \<Rightarrow> obs_summary option" where
  "summary_row g members =
     (case members of
        [] \<Rightarrow> None
      | m # _ \<Rightarrow>
          Some \<lparr>sum_Grupo = g, sum_DATE_START = DATE_START m,
                sum_DELTA = round_half_even (sum_list (map DELTA members)),
                sum_Size = real_of_int (round_half_even (sum_list (map Size members) / 1024 * 100)) / 100,
                sum_MINFREQ = MINFREQ m, sum_MAXFREQ = MAXFREQ m, sum_NAXIS1 = NAXIS1 m\<rparr>)"

text \<open>
  Lines 67 to 89: \<open>dropna()\<close> keeps the rows whose \<open>Grupo\<close> is set, \<open>groupby("Grupo")\<close>
  collects them by group number in ascending order, and \<open>agg\<close> builds one row per group.
\<close>

definition kept_rows :: "file_record list \<Rightarrow> nat option list \<Rightarrow> (nat \<times> file_record) list" where
  "kept_rows rs col =
     List.map_filter (\<lambda>(c, r). case c of None \<Rightarrow> None | Some g \<Rightarrow> Some (g, r)) (zip col rs)"

definition summarize :: "file_record list \<Rightarrow> nat option list \<Rightarrow> obs_summary list" where
  "summarize rs col =
     (let kept = kept_rows rs col
      in List.map_filter
           (\<lambda>g. summary_row g (map snd (filter (\<lambda>gr. fst gr = g) kept)))
           (sort (remdups (map fst kept))))"

text \<open>
  \<open>read_obs(df)\<close> for a DataFrame argument. The table is mutated in place, so the model
  returns it next to the outcome: the summary, or the exception raised. Without a column
  \<open>Grupo\<close>, \<open>groupby("Grupo")\<close> in line 69 raises KeyError.
\<close>

definition contiguous_ones :: "(nat \<times> nat) list \<Rightarrow> (nat \<times> nat) list list" where
  "contiguous_ones series = filter starts_with_one (runs series)"

definition read_obs :: "data_frame \<Rightarrow> data_frame \<times> (py_error + obs_summary list)" where
  "read_obs df =
     (case series_of (recs df) of
        Inl e \<Rightarrow> (df, Inl e)
      | Inr series \<Rightarrow>
          (let df' = assign_groups df 0 (contiguous_ones series)
           in (df', case Grupo df' of
                      None \<Rightarrow> Inl KeyError
                    | Some col \<Rightarrow> Inr (summarize (recs df') col))))"

text \<open>
  Three files of one bucket, each 60 seconds long and 1024 MiB large, starting 60 seconds
  apart.
\<close>

definition obs_row :: "string \<Rightarrow> int \<Rightarrow> real \<Rightarrow> file_record" where
  "obs_row p start delta = \<lparr>File = p, Size = 1024, NAXIS2 = 10, MINFREQ = 45, MAXFREQ = 870,
     NAXIS1 = 3600, DELTA = delta, DATE_START = start\<rparr>"

definition three_rows :: data_frame where
  "three_rows = \<lparr>recs = [obs_row ''a'' 0 60, obs_row ''b'' 60000000000 60,
                         obs_row ''c'' 120000000000 60], Grupo = None\<rparr>"

section \<open>Auxiliary notions and sample inputs\<close>

text \<open>All paths the chunking loop holds: those of the closed chunks, then the running chunk.\<close>

definition flat :: "chunk_state \<Rightarrow> string list" where
  "flat s = concat (chunks s) @ file_chunk s"

text \<open>
  The loop state when the walk reaches position \<open>k\<close> of the table, and whether the test
  \<open>size < threshold\<close> fails there, so that the \<open>else\<close> branch closes the running chunk.
\<close>

definition state_at :: "real \<Rightarrow> file_record list \<Rightarrow> nat \<Rightarrow> chunk_state" where
  "state_at t obs k = chunk_loop t chunk_init (take k obs)"

definition closes_at :: "real \<Rightarrow> file_record list \<Rightarrow> nat \<Rightarrow> bool" where
  "closes_at t obs k = (\<not> size_acc (state_at t obs k) < t)"

text \<open>
  A chunk that is the paths of a non-empty run of consecutive rows whose sizes reach the
  threshold only with the last row.
\<close>

definition closed_segment :: "real \<Rightarrow> file_record list \<Rightarrow> string list \<Rightarrow> bool" where
  "closed_segment t obs c \<longleftrightarrow>
     (\<exists>pre seg post. obs = pre @ seg @ post \<and> c = map File seg \<and> seg \<noteq> [] \<and>
        sum_list (map Size (butlast seg)) < t \<and> t \<le> sum_list (map Size seg))"

definition chunk_inv :: "real \<Rightarrow> file_record list \<Rightarrow> chunk_state \<Rightarrow> bool" where
  "chunk_inv t xs s \<longleftrightarrow>
     (\<forall>c \<in> set (chunks s). closed_segment t xs c) \<and>
     (\<exists>pre seg. xs = pre @ seg \<and> file_chunk s = map File seg \<and>
        size_acc s = sum_list (map Size seg) \<and>
        (seg = [] \<or> sum_list (map Size (butlast seg)) < t))"

text \<open>The example of the specification, and the same list with two more files.\<close>

definition spec_files :: "file_record list" where
  "spec_files = [mk_file ''f1'' 100, mk_file ''f2'' 100, mk_file ''f3'' 50]"

definition five_files :: "file_record list" where
  "five_files = [mk_file ''f1'' 100, mk_file ''f2'' 100, mk_file ''f3'' 50,
                 mk_file ''f4'' 200, mk_file ''f5'' 10]"

text \<open>
  Two files of one bucket that follow each other without a gap: the first lasts 900
  seconds, the second starts 900 seconds later and lasts 200 seconds.
\<close>

definition short_last :: data_frame where
  "short_last = \<lparr>recs = [obs_row ''a'' 0 900, obs_row ''b'' 900000000000 200], Grupo = None\<rparr>"

text \<open>
  Two files of one bucket with 700 seconds of silence between them: the first lasts 200
  seconds, the second starts 900 seconds after the first and lasts 900 seconds.
\<close>

definition long_last :: data_frame where
  "long_last = \<lparr>recs = [obs_row ''a'' 0 200, obs_row ''b'' 900000000000 900], Grupo = None\<rparr>"





text \<open>A raw directory of four files, listed out of order, and its inventory.\<close>

definition demo_datetime :: "string \<Rightarrow> int option" where
  "demo_datetime =
     map_of [(''20240101T000000.000'', 0), (''20240101T001500.000'', 900000000000),
             (''20240102T000000.000'', 86400000000000)]"

definition raw :: "string \<Rightarrow> string \<Rightarrow> string \<Rightarrow> real \<Rightarrow> int \<Rightarrow> raw_file" where
  "raw p d t lo n1 = \<lparr>rf_path = p, rf_st_size = 1048576, rf_opens = True, rf_DATE_OBS = Some d,
     rf_TIME_OBS = Some t, rf_NAXIS2 = Some 10, rf_MINFREQ = Some lo,
     rf_MAXFREQ = Some 870000000, rf_NAXIS1 = Some n1, rf_time_last = 899\<rparr>"

definition demo_dir :: "raw_file list" where
  "demo_dir = [raw ''c.fit'' ''20240102'' ''000000.000'' 45000000 3600,
               raw ''b.fit'' ''20240101'' ''001500.000'' 45000000 3600,
               raw ''d.fit'' ''20240101'' ''000000.000'' 45000000 1800,
               raw ''a.fit'' ''20240101'' ''000000.000'' 45000000 3600]"

definition inv_row :: "string \<Rightarrow> int \<Rightarrow> int \<Rightarrow> file_record" where
  "inv_row p n1 ts = \<lparr>File = p, Size = 1, NAXIS2 = 10, MINFREQ = 45, MAXFREQ = 870,
     NAXIS1 = n1, DELTA = 899, DATE_START = ts\<rparr>"

definition demo_inventory :: data_frame where
  "demo_inventory = \<lparr>recs = [inv_row ''d.fit'' 1800 0, inv_row ''a.fit'' 3600 0,
      inv_row ''b.fit'' 3600 900000000000, inv_row ''c.fit'' 3600 86400000000000],
      Grupo = None\<rparr>"

section \<open>Properties of chunk\_files\<close>

lemma chunk_loop_snoc:
  "chunk_loop t s (rs @ [r]) = chunk_step t (chunk_loop t s rs) r"
  by (induction rs arbitrary: s) simp_all

lemma six_files_chunks:
  "chunk_files six_files 200 = [[''f1''], [''f3''], [''f5'']]"
  by (simp add: six_files_def chunk_files_def chunk_step_def chunk_init_def mk_file_def)

lemma spec_files_chunks: "chunk_files spec_files 200 = [[''f1'', ''f2'']]"
  by (simp add: spec_files_def chunk_files_def chunk_step_def chunk_init_def mk_file_def)

text \<open>
  Claim C1. The claim says that the file met when the running chunk has reached the
  threshold becomes the first element of the next chunk, so that no file is skipped at a
  chunk boundary. The \<open>else\<close> branch of the loop closes the chunk and does nothing with
  the file at hand: on the specification's own example \<open>f3\<close> is in no chunk, and with two
  more files the next chunk starts with \<open>f4\<close>, not with \<open>f3\<close>.
\<close>

theorem chunk_files_skips_boundary_file:
  "chunk_files spec_files 200 = [[''f1'', ''f2'']] \<and>
   chunk_files five_files 200 = [[''f1'', ''f2''], [''f4'']] \<and>
   ''f3'' \<notin> set (concat (chunk_files five_files 200))"
  by (simp add: spec_files_def five_files_def chunk_files_def chunk_step_def chunk_init_def
      mk_file_def)

subsection \<open>The returned chunks are exactly the closed ones\<close>

lemma chunk_files_closures:
  "chunk_files obs t =
     map (\<lambda>k. file_chunk (state_at t obs k)) (filter (closes_at t obs) [0..<length obs])"
proof (induction obs rule: rev_induct)
  case Nil
  then show ?case by (simp add: chunk_files_def chunk_init_def)
next
  case (snoc r rs)
  have eq: "state_at t (rs @ [r]) k = state_at t rs k" if "k \<le> length rs" for k
    using that by (simp add: state_at_def)
  have f: "filter (closes_at t (rs @ [r])) [0..<length rs] = filter (closes_at t rs) [0..<length rs]"
    by (rule filter_cong) (simp_all add: closes_at_def eq)
  have m: "map (\<lambda>k. file_chunk (state_at t (rs @ [r]) k)) (filter (closes_at t rs) [0..<length rs])
      = map (\<lambda>k. file_chunk (state_at t rs k)) (filter (closes_at t rs) [0..<length rs])"
    by (rule map_cong) (simp_all add: eq)
  have st: "chunk_loop t chunk_init rs = state_at t rs (length rs)"
    by (simp add: state_at_def)
  have step: "chunk_files (rs @ [r]) t =
     (if closes_at t rs (length rs) then chunk_files rs t @ [file_chunk (state_at t rs (length rs))]
      else chunk_files rs t)"
    by (simp add: chunk_files_def chunk_loop_snoc chunk_step_def closes_at_def st)
  have "map (\<lambda>k. file_chunk (state_at t (rs @ [r]) k))
          (filter (closes_at t (rs @ [r])) [0..<length rs]) = chunk_files rs t"
    by (simp only: f m snoc.IH)
  moreover have "closes_at t (rs @ [r]) (length rs) = closes_at t rs (length rs)"
    by (simp add: closes_at_def eq)
  moreover have "state_at t (rs @ [r]) (length rs) = state_at t rs (length rs)"
    by (simp add: eq)
  ultimately show ?case
    by (simp add: step)
qed

text \<open>
  Claim C6. The trailing chunk still in progress at the end of the input is not appended:
  the returned sequence lists, in order, the running chunks at exactly those positions of
  the walk where the threshold test closed one; and a file that joins the running chunk
  at the end of the input leaves the returned sequence as it was.
\<close>

theorem chunk_files_trailing_not_flushed:
  "chunk_files obs t =
     map (\<lambda>k. file_chunk (state_at t obs k)) (filter (closes_at t obs) [0..<length obs])
   \<and> (size_acc (chunk_loop t chunk_init obs) < t \<longrightarrow> chunk_files (obs @ [r]) t = chunk_files obs t)"
  using chunk_files_closures [of obs t]
  by (simp add: chunk_files_def chunk_loop_snoc chunk_step_def)

theorem chunk_files_trailing_not_flushed_witness:
  "size_acc (chunk_loop 200 chunk_init [mk_file ''f1'' 100]) < 200 \<and>
   chunk_files ([mk_file ''f1'' 100] @ [mk_file ''f2'' 100]) 200
     = chunk_files [mk_file ''f1'' 100] 200 \<and>
   chunk_files [mk_file ''f1'' 100] 200 = []"
proof -
  have h: "size_acc (chunk_loop 200 chunk_init [mk_file ''f1'' 100]) < 200"
    by (simp add: chunk_step_def chunk_init_def mk_file_def)
  have e: "chunk_files [mk_file ''f1'' 100] 200 = []"
    by (simp add: chunk_files_def chunk_step_def chunk_init_def mk_file_def)
  from chunk_files_trailing_not_flushed [of "[mk_file ''f1'' 100]" 200 "mk_file ''f2'' 100"] h
  have "chunk_files ([mk_file ''f1'' 100] @ [mk_file ''f2'' 100]) 200
          = chunk_files [mk_file ''f1'' 100] 200" by blast
  with h e show ?thesis by blast
qed

subsection \<open>Every returned chunk is a run of rows that reaches the threshold with its last file\<close>

lemma closed_segment_snoc:
  "closed_segment t xs c \<Longrightarrow> closed_segment t (xs @ [r]) c"
  unfolding closed_segment_def
  apply (elim exE conjE)
  subgoal for pre seg post
    by (rule exI [of _ pre], rule exI [of _ seg], rule exI [of _ "post @ [r]"]) simp
  done

lemma chunk_inv_step:
  assumes "0 < t" and "chunk_inv t xs s"
  shows "chunk_inv t (xs @ [r]) (chunk_step t s r)"
proof -
  from assms(2) obtain pre seg where
    cs: "\<forall>c \<in> set (chunks s). closed_segment t xs c" and
    xs: "xs = pre @ seg" and fc: "file_chunk s = map File seg" and
    sz: "size_acc s = sum_list (map Size seg)" and
    bl: "seg = [] \<or> sum_list (map Size (butlast seg)) < t"
    unfolding chunk_inv_def by blast
  show ?thesis
  proof (cases "size_acc s < t")
    case True
    have "xs @ [r] = pre @ (seg @ [r])" using xs by simp
    moreover have "file_chunk (chunk_step t s r) = map File (seg @ [r])"
      using True fc by (simp add: chunk_step_def)
    moreover have "size_acc (chunk_step t s r) = sum_list (map Size (seg @ [r]))"
      using True sz by (simp add: chunk_step_def)
    moreover have "sum_list (map Size (butlast (seg @ [r]))) < t"
      using True sz by simp
    moreover have "\<forall>c \<in> set (chunks (chunk_step t s r)). closed_segment t (xs @ [r]) c"
      using True cs by (simp add: chunk_step_def closed_segment_snoc)
    ultimately show ?thesis unfolding chunk_inv_def by blast
  next
    case False
    then have ne: "seg \<noteq> []" using sz assms(1) by auto
    have "closed_segment t (xs @ [r]) (file_chunk s)"
      unfolding closed_segment_def
      by (rule exI [of _ pre], rule exI [of _ seg], rule exI [of _ "[r]"])
         (use xs fc ne bl False sz in simp)
    then have "\<forall>c \<in> set (chunks (chunk_step t s r)). closed_segment t (xs @ [r]) c"
      using False cs by (auto simp: chunk_step_def closed_segment_snoc)
    moreover have "xs @ [r] = (xs @ [r]) @ []" by simp
    moreover have "file_chunk (chunk_step t s r) = map File []"
      and "size_acc (chunk_step t s r) = sum_list (map Size [])"
      using False by (simp_all add: chunk_step_def)
    ultimately show ?thesis unfolding chunk_inv_def by blast
  qed
qed

lemma chunk_inv_loop:
  "0 < t \<Longrightarrow> chunk_inv t obs (chunk_loop t chunk_init obs)"
proof (induction obs rule: rev_induct)
  case Nil
  then show ?case by (simp add: chunk_inv_def chunk_init_def)
next
  case (snoc r rs)
  then show ?case by (simp add: chunk_loop_snoc chunk_inv_step)
qed

text \<open>
  Claim C7. For a threshold above 0, every returned chunk is non-empty, it is the paths of
  a run of consecutive rows of the table, and the cumulative size of that run without its
  last file is below the threshold (while the whole run has reached it). The sizes need
  not be positive for this.
\<close>

theorem chunk_files_chunks_bounded:
  assumes "0 < t" and "c \<in> set (chunk_files obs t)"
  shows "c \<noteq> [] \<and>
    (\<exists>pre seg post. obs = pre @ seg @ post \<and> c = map File seg \<and>
       sum_list (map Size seg) - Size (last seg) < t \<and> t \<le> sum_list (map Size seg))"
proof -
  from chunk_inv_loop [OF assms(1), of obs] assms(2)
  have "closed_segment t obs c" by (simp add: chunk_inv_def chunk_files_def)
  then obtain pre seg post where
    *: "obs = pre @ seg @ post" "c = map File seg" "seg \<noteq> []"
       "sum_list (map Size (butlast seg)) < t" "t \<le> sum_list (map Size seg)"
    unfolding closed_segment_def by blast
  from *(3) have "sum_list (map Size seg) = sum_list (map Size (butlast seg)) + Size (last seg)"
    by (induction seg rule: rev_induct) simp_all
  with *(4) have "sum_list (map Size seg) - Size (last seg) < t" by simp
  with *(1,2,5) have "\<exists>pre seg post. obs = pre @ seg @ post \<and> c = map File seg \<and>
       sum_list (map Size seg) - Size (last seg) < t \<and> t \<le> sum_list (map Size seg)"
    by blast
  moreover have "c \<noteq> []" using *(2,3) by simp
  ultimately show ?thesis by simp
qed

theorem chunk_files_chunks_bounded_witness:
  "(0::real) < 200 \<and> [''f1'', ''f2''] \<in> set (chunk_files spec_files 200) \<and>
   [''f1'', ''f2''] \<noteq> ([]::string list) \<and>
   (\<exists>pre seg post. spec_files = pre @ seg @ post \<and> [''f1'', ''f2''] = map File seg \<and>
       sum_list (map Size seg) - Size (last seg) < 200 \<and> 200 \<le> sum_list (map Size seg))"
proof -
  have p: "(0::real) < 200" by simp
  have m: "[''f1'', ''f2''] \<in> set (chunk_files spec_files 200)"
    by (simp add: spec_files_chunks)
  from chunk_files_chunks_bounded [OF p m] p m show ?thesis by blast
qed

subsection \<open>Order and multiplicity\<close>

lemma chunk_step_subseq:
  assumes "subseq (flat s) fs"
  shows "subseq (flat (chunk_step t s r)) (fs @ [File r])"
proof (cases "size_acc s < t")
  case True
  have "subseq (flat s @ [File r]) (fs @ [File r])"
    using assms by (intro list_emb_append_mono) simp_all
  with True show ?thesis by (simp add: flat_def chunk_step_def)
next
  case False
  have "subseq (flat s) (fs @ [File r])"
    using assms by (rule subseq_rev_drop_many)
  with False show ?thesis by (simp add: flat_def chunk_step_def)
qed

lemma chunk_loop_subseq:
  "subseq (flat s) fs \<Longrightarrow> subseq (flat (chunk_loop t s rs)) (fs @ map File rs)"
proof (induction rs arbitrary: s fs)
  case Nil
  then show ?case by simp
next
  case (Cons r rs)
  from chunk_step_subseq [OF Cons.prems]
  have "subseq (flat (chunk_step t s r)) (fs @ [File r])" .
  from Cons.IH [OF this] show ?case by simp
qed

lemma subseq_count_list:
  "subseq xs ys \<Longrightarrow> count_list xs a \<le> count_list ys a"
  by (induction rule: list_emb.induct) auto

lemma subseq_distinct:
  "subseq xs ys \<Longrightarrow> distinct ys \<Longrightarrow> distinct xs"
proof (induction rule: list_emb.induct)
  case (list_emb_Cons2 x y xs ys)
  then show ?case using list_emb_set [of "(=)" xs ys] by auto
qed auto

lemma chunk_files_subseq: "subseq (concat (chunk_files obs t)) (map File obs)"
proof -
  have "subseq (flat chunk_init) []" by (simp add: flat_def chunk_init_def)
  from chunk_loop_subseq [OF this, of t obs]
  have "subseq (flat (chunk_loop t chunk_init obs)) (map File obs)" by simp
  moreover have "subseq (concat (chunk_files obs t)) (flat (chunk_loop t chunk_init obs))"
    unfolding flat_def chunk_files_def by (rule subseq_rev_drop_many) simp
  ultimately show ?thesis by (rule subseq_order.trans [rotated])
qed

text \<open>
  Claim C10. The concatenation of the returned chunks is a subsequence of the input paths,
  so nothing is reordered; no path occurs more often in the chunks than in the input; and
  when the input paths are distinct, as the paths of a directory listing are, each occurs
  at most once across all returned chunks.
\<close>

theorem chunk_files_no_dup_no_reorder:
  "subseq (concat (chunk_files obs t)) (map File obs)
   \<and> (\<forall>p. count_list (concat (chunk_files obs t)) p \<le> count_list (map File obs) p)
   \<and> (distinct (map File obs) \<longrightarrow> distinct (concat (chunk_files obs t)))"
  using chunk_files_subseq [of obs t]
  by (auto intro: subseq_count_list subseq_distinct)

theorem chunk_files_no_dup_no_reorder_witness:
  "distinct (map File five_files) \<and> distinct (concat (chunk_files five_files 200)) \<and>
   subseq (concat (chunk_files five_files 200)) (map File five_files) \<and>
   count_list (concat (chunk_files five_files 200)) ''f3''
     \<le> count_list (map File five_files) ''f3''"
proof -
  have d: "distinct (map File five_files)"
    by (simp add: five_files_def mk_file_def)
  from chunk_files_no_dup_no_reorder [of five_files 200] d show ?thesis by blast
qed

section \<open>Properties of load\_fits\<close>

lemma load_ok:
  "load_fits demo_open six_files (Some (0, 3)) 200 =
     Inr \<lparr>xda_values = [[1], [1], [1]], xda_Time = [0, 0, 0], xda_Freq = [45]\<rparr>"
  by (simp add: load_fits_def six_files_chunks clamp_end_def py_slice_def loader_init_def
      demo_open_def make_xda_def)

lemma load_bad:
  "load_fits demo_open six_files (Some (0, 1000)) 200 = Inl TypeError"
  by (simp add: load_fits_def six_files_chunks clamp_end_def list_store_def py_slice_def
      loader_init_def demo_open_def make_xda_def)

lemma clamp_bad:
  "clamp_end (map Paths (chunk_files six_files 200)) (0, 1000) =
     Inr [Paths [''f1''], IntItem 3, Paths [''f5'']]"
  by (simp add: six_files_chunks clamp_end_def list_store_def)

text \<open>
  Claim C4. The claim says that an end index beyond the number of chunks is clamped, that
  the call then behaves as with the end index equal to that number, and that the chunk
  sequence is left unchanged. With three chunks and the range \<open>[0, 1000)\<close>, line 124 stores
  the number 3 into \<open>chunks[1]\<close>: the second chunk is replaced, and the loop raises
  TypeError when it reaches it, while the range \<open>[0, 3)\<close> loads the three chunks.
\<close>

theorem load_fits_end_beyond_range:
  "length (chunk_files six_files 200) = 3 \<and>
   clamp_end (map Paths (chunk_files six_files 200)) (0, 1000) =
     Inr [Paths [''f1''], IntItem 3, Paths [''f5'']] \<and>
   load_fits demo_open six_files (Some (0, 1000)) 200 = Inl TypeError \<and>
   load_fits demo_open six_files (Some (0, 3)) 200 =
     Inr \<lparr>xda_values = [[1], [1], [1]], xda_Time = [0, 0, 0], xda_Freq = [45]\<rparr>"
proof (intro conjI)
  show "length (chunk_files six_files 200) = 3" by (simp add: six_files_chunks)
  show "clamp_end (map Paths (chunk_files six_files 200)) (0, 1000) =
          Inr [Paths [''f1''], IntItem 3, Paths [''f5'']]" by (rule clamp_bad)
  show "load_fits demo_open six_files (Some (0, 1000)) 200 = Inl TypeError" by (rule load_bad)
  show "load_fits demo_open six_files (Some (0, 3)) 200 =
          Inr \<lparr>xda_values = [[1], [1], [1]], xda_Time = [0, 0, 0], xda_Freq = [45]\<rparr>"
    by (rule load_ok)
qed

text \<open>
  More generally, from start index 0 every end index beyond the number of chunks makes
  \<open>load_fits\<close> raise: IndexError with fewer than two chunks, and otherwise an error of the
  first chunk or the TypeError of the second.
\<close>

lemma load_chunks_int_second:
  "\<exists>err. load_chunks fo s (Paths c # IntItem n # rest) = Inl err"
  by (cases "load_chunk fo s c") simp_all

lemma end_beyond_range_raises:
  assumes "int (length (chunk_files obs t)) < e"
  shows "\<exists>err. load_fits fo obs (Some (0, e)) t = Inl err"
proof (cases "chunk_files obs t")
  case Nil
  then show ?thesis using assms
    by (simp add: load_fits_def clamp_end_def list_store_def)
next
  case (Cons c0 cs)
  show ?thesis
  proof (cases cs)
    case Nil
    with Cons show ?thesis using assms
      by (simp add: load_fits_def clamp_end_def list_store_def)
  next
    case (Cons c1 cs')
    let ?n = "int (length (chunk_files obs t))"
    let ?l = "Paths c0 # IntItem ?n # map Paths cs'"
    from \<open>chunk_files obs t = c0 # cs\<close> Cons
    have cl: "clamp_end (map Paths (chunk_files obs t)) (0, e) = Inr ?l"
      using assms by (simp add: clamp_end_def list_store_def)
    have sl: "py_slice ?l 0 e = ?l"
      using assms \<open>chunk_files obs t = c0 # cs\<close> Cons by (simp add: py_slice_def min_def)
    from load_chunks_int_second [of fo loader_init c0 ?n "map Paths cs'"]
    obtain err where "load_chunks fo loader_init ?l = Inl err" by blast
    then show ?thesis
      by (simp add: load_fits_def cl sl Let_def)
  qed
qed

text \<open>
  Claim C5. The claim says that the empty range \<open>[0, 0)\<close> yields an empty result and not
  an error. For every table, reader and threshold the loop body never runs, \<open>dda\<close> is never
  bound, and building the result in line 147 raises UnboundLocalError.
\<close>

theorem load_fits_empty_range:
  "load_fits fits_open obs (Some (0, 0)) threshold = Inl UnboundLocalError"
  by (simp add: load_fits_def clamp_end_def py_slice_def loader_init_def make_xda_def)

section \<open>Properties of read\_fits\<close>

lemma bucket_sorted:
  assumes "sorted (map sort_columns xs)"
    and "\<forall>r \<in> set xs. bucket_key r = k"
  shows "sorted (map DATE_START xs)"
proof -
  have "sorted_wrt (\<lambda>x y. sort_columns x \<le> sort_columns y) xs"
    using assms(1) by (simp add: sorted_map)
  then have "sorted_wrt (\<lambda>x y. DATE_START x \<le> DATE_START y) xs"
  proof (rule sorted_wrt_mono_rel [rotated])
    fix x y assume "x \<in> set xs" "y \<in> set xs" "sort_columns x \<le> sort_columns y"
    moreover from this assms(2) have "bucket_key x = bucket_key y" by simp
    ultimately show "DATE_START x \<le> DATE_START y"
      by (auto simp: sort_columns_def bucket_key_def)
  qed
  then show ?thesis by (simp add: sorted_map)
qed

text \<open>
  Claim C8. Whenever \<open>read_fits\<close> returns an inventory (which needs at least one scanned
  file), its rows are in ascending lexicographic order of \<open>(MINFREQ, NAXIS1, DATE_START)\<close>,
  and therefore the rows of every bucket \<open>(MINFREQ, MAXFREQ, NAXIS1)\<close>, taken in table
  order, are in ascending order of \<open>DATE_START\<close>.
\<close>

theorem read_fits_sorted:
  assumes "read_fits to_datetime files = Inr df"
  shows "files \<noteq> [] \<and> sorted (map sort_columns (recs df)) \<and>
         (\<forall>k. sorted (map DATE_START (filter (\<lambda>r. bucket_key r = k) (recs df))))"
proof -
  from assms have ne: "files \<noteq> []" by (auto simp: read_fits_def)
  from assms obtain rs where df: "recs df = sort_key sort_columns rs"
    by (auto simp: read_fits_def split: if_splits sum.splits)
  have s: "sorted (map sort_columns (recs df))" by (simp add: df)
  have "sorted (map DATE_START (filter (\<lambda>r. bucket_key r = k) (recs df)))" for k
  proof (rule bucket_sorted)
    show "sorted (map sort_columns (filter (\<lambda>r. bucket_key r = k) (recs df)))"
      using s by (rule sorted_filter)
    show "\<forall>r \<in> set (filter (\<lambda>r. bucket_key r = k) (recs df)). bucket_key r = k" by simp
  qed
  with ne s show ?thesis by simp
qed

lemma demo_scan: "scan_files demo_dir = Inr [
   \<lparr>hr_File = ''c.fit'', hr_Size = 1, hr_DATE_OBS = ''20240102'', hr_TIME_OBS = ''000000.000'', hr_NAXIS2 = 10, hr_MINFREQ = 45000000, hr_MAXFREQ = 870000000, hr_NAXIS1 = 3600, hr_DELTA = 899\<rparr>,
   \<lparr>hr_File = ''b.fit'', hr_Size = 1, hr_DATE_OBS = ''20240101'', hr_TIME_OBS = ''001500.000'', hr_NAXIS2 = 10, hr_MINFREQ = 45000000, hr_MAXFREQ = 870000000, hr_NAXIS1 = 3600, hr_DELTA = 899\<rparr>,
   \<lparr>hr_File = ''d.fit'', hr_Size = 1, hr_DATE_OBS = ''20240101'', hr_TIME_OBS = ''000000.000'', hr_NAXIS2 = 10, hr_MINFREQ = 45000000, hr_MAXFREQ = 870000000, hr_NAXIS1 = 1800, hr_DELTA = 899\<rparr>,
   \<lparr>hr_File = ''a.fit'', hr_Size = 1, hr_DATE_OBS = ''20240101'', hr_TIME_OBS = ''000000.000'', hr_NAXIS2 = 10, hr_MINFREQ = 45000000, hr_MAXFREQ = 870000000, hr_NAXIS1 = 3600, hr_DELTA = 899\<rparr>]"
  by (simp add: demo_dir_def raw_def scan_file_def)

lemma demo_read: "read_fits demo_datetime demo_dir = Inr demo_inventory"
  unfolding read_fits_def demo_scan
  by (simp add: demo_dir_def demo_datetime_def demo_inventory_def inv_row_def sort_columns_def)



theorem read_fits_sorted_witness:
  "read_fits demo_datetime demo_dir = Inr demo_inventory \<and> demo_dir \<noteq> [] \<and>
   sorted (map sort_columns (recs demo_inventory)) \<and>
   sorted (map DATE_START (filter (\<lambda>r. bucket_key r = (45, 870, 3600)) (recs demo_inventory)))"
  using read_fits_sorted [OF demo_read] demo_read by blast

section \<open>Properties of read\_obs\<close>

lemma pair_marks_length: "length (pair_marks rows) = length rows - 1"
  by (induction rows rule: pair_marks.induct) simp_all


lemma pair_marks_nth:
  "Suc i < length rows \<Longrightarrow>
     pair_marks rows ! i =
       (fst (rows ! Suc i),
        \<bar>total_seconds (DATE_START (snd (rows ! Suc i)) - DATE_START (snd (rows ! i)))
           - DELTA (snd (rows ! Suc i))\<bar> < 300)"
proof (induction rows arbitrary: i rule: pair_marks.induct)
  case (1 i' p j r rest)
  then show ?case by (cases i) simp_all
qed simp_all

text \<open>
  Claim C2. The claim says that the pair \<open>(i-1, i)\<close> is marked contiguous exactly when
  \<open>|(start[i] - start[i-1]).total_seconds() - delta[i-1]| < 300\<close>, with the duration of the
  earlier record, which is the gap between the end of one file and the start of the next.
  Line 57 subtracts the duration of the later record (lemma \<open>pair_marks_nth\<close>). For a
  file of 900 seconds followed without a gap by one of 200 seconds the claim's quantity is
  \<open>|900 - 900| < 300\<close>, but the code computes \<open>|900 - 200| < 300\<close>, marks the pair as
  apart, writes no group and raises KeyError. For a file of 200 seconds followed 900
  seconds later by one of 900 seconds, a gap of 700 seconds, the claim's quantity is
  \<open>|900 - 200| < 300\<close>, false, but the code computes \<open>|900 - 900| < 300\<close> and puts the
  second file into a group.
\<close>

theorem read_obs_subtracts_later_delta:
  "map pair_marks (groupby_bucket (recs short_last)) = [[(1, False)]] \<and>
   \<bar>total_seconds (DATE_START (recs short_last ! 1) - DATE_START (recs short_last ! 0))
      - DELTA (recs short_last ! 0)\<bar> < 300 \<and>
   read_obs short_last = (short_last, Inl KeyError) \<and>
   map pair_marks (groupby_bucket (recs long_last)) = [[(1, True)]] \<and>
   \<not> \<bar>total_seconds (DATE_START (recs long_last ! 1) - DATE_START (recs long_last ! 0))
        - DELTA (recs long_last ! 0)\<bar> < 300 \<and>
   Grupo (fst (read_obs long_last)) = Some [None, Some 0]"
  by code_simp

text \<open>
  Claim C3. The claim says that a bucket of records with all consecutive gaps below 300
  seconds gives one group that includes the first record of the run, and that the summary
  reports that record's start and the sums over all members. The marks sit at the labels
  of the later rows of the pairs, so line 66 never writes \<open>Grupo\<close> for the first record
  of a run: for three contiguous files of 60 seconds and 1024 MiB each the group holds the
  second and third only, its start is that of the second file, its duration 120 seconds
  and its size 2 GiB.
\<close>

theorem read_obs_drops_anchor:
  "read_obs three_rows =
   (three_rows\<lparr>Grupo := Some [None, Some 0, Some 0]\<rparr>,
    Inr [\<lparr>sum_Grupo = 0, sum_DATE_START = 60000000000, sum_DELTA = 120, sum_Size = 2,
           sum_MINFREQ = 45, sum_MAXFREQ = 870, sum_NAXIS1 = 3600\<rparr>])"
  by code_simp





































end
